theory Spec2Isabelle
  imports Main "HOL-Library.Char_ord" "HOL-Library.List_Lexorder"
begin

section \<open>The deployment script \<^verbatim>\<open>deploy_ec2_with_github.py\<close>\<close>

text \<open>
  The script is a straight line of calls to GitHub's REST interface, to the EC2 client and
  resource of boto3 and to the local file system, with two local exception handlers and
  one handler around \<^verbatim>\<open>main()\<close>. A run is modelled as a function from the
  configuration (the module's globals) and the answers of the outside world to the
  result of the run, a value or the exception raised, together with the list of
  everything the run did to the outside world, in order.
\<close>

subsection \<open>Exceptions\<close>

text \<open>
  The exceptions a run can meet. Subclasses of Python's \<^verbatim>\<open>Exception\<close>: the two
  the script raises itself, botocore's \<^verbatim>\<open>ClientError\<close> (with the text
  \<^verbatim>\<open>str(e)\<close>, which is all the handlers look at), the \<^verbatim>\<open>IndexError\<close> of
  \<^verbatim>\<open>xs[0]\<close> on an empty list, the \<^verbatim>\<open>KeyError\<close> of a missing dictionary key, and
  any other exception of a library call or of \<^verbatim>\<open>print\<close> (a connection error, a
  waiter error, an \<^verbatim>\<open>OSError\<close>, a \<^verbatim>\<open>UnicodeEncodeError\<close>), with its text.
  \<^verbatim>\<open>KeyboardInterrupt\<close> is not a subclass of \<^verbatim>\<open>Exception\<close>: it is raised inside
  whatever call is running when the user interrupts the script.
\<close>

datatype exn =
    ValueError string
  | Exception string
  | ClientError string
  | IndexError
  | KeyError string
  | OtherError string
  | KeyboardInterrupt

text \<open>\<^verbatim>\<open>isinstance(e, Exception)\<close>.\<close>

definition is_Exception :: "exn \<Rightarrow> bool" where
  "is_Exception e = (case e of KeyboardInterrupt \<Rightarrow> False | _ \<Rightarrow> True)"

definition str_exn :: "exn \<Rightarrow> string" where
  "str_exn e =
     (case e of
        ValueError s \<Rightarrow> s
      | Exception s \<Rightarrow> s
      | ClientError s \<Rightarrow> s
      | IndexError \<Rightarrow> ''list index out of range''
      | KeyError k \<Rightarrow> [CHR 0x27] @ k @ [CHR 0x27]
      | OtherError s \<Rightarrow> s
      | KeyboardInterrupt \<Rightarrow> [])"

subsection \<open>Strings\<close>

text \<open>\<^verbatim>\<open>not s\<close> for a value that is \<^verbatim>\<open>None\<close> or a string.\<close>

definition falsy :: "string option \<Rightarrow> bool" where
  "falsy v = (case v of None \<Rightarrow> True | Some s \<Rightarrow> s = [])"

text \<open>\<^verbatim>\<open>{v}\<close> inside an f-string, for a value that is \<^verbatim>\<open>None\<close> or a string.\<close>

definition str_opt :: "string option \<Rightarrow> string" where
  "str_opt v = (case v of None \<Rightarrow> ''None'' | Some s \<Rightarrow> s)"

definition digit_char :: "nat \<Rightarrow> char" where
  "digit_char d = char_of (48 + d)"

fun str_nat :: "nat \<Rightarrow> string" where
  "str_nat n = (if n < 10 then [digit_char n] else str_nat (n div 10) @ [digit_char (n mod 10)])"

declare str_nat.simps [simp del]

text \<open>\<^verbatim>\<open>str(n)\<close> for an integer.\<close>

definition str_int :: "int \<Rightarrow> string" where
  "str_int i = (if i < 0 then ''-'' @ str_nat (nat (- i)) else str_nat (nat i))"

definition startswith :: "string \<Rightarrow> string \<Rightarrow> bool" where
  "startswith s p = (take (length p) s = p)"

text \<open>\<^verbatim>\<open>needle in s\<close> for two strings: \<open>needle\<close> occurs in \<open>s\<close> as a substring.\<close>

fun str_in :: "string \<Rightarrow> string \<Rightarrow> bool" where
  "str_in needle [] = (needle = [])"
| "str_in needle (c # cs) = (startswith (c # cs) needle \<or> str_in needle cs)"

text \<open>
  \<^verbatim>\<open>sorted(xs, key=key, reverse=reverse)\<close>. Python's sort is stable, and with
  \<^verbatim>\<open>reverse=True\<close> elements with equal keys still keep their original order (the list
  is reversed, sorted and reversed again). Strings compare lexicographically by
  character code.
\<close>

definition sorted_py :: "('a \<Rightarrow> string) \<Rightarrow> bool \<Rightarrow> 'a list \<Rightarrow> 'a list" where
  "sorted_py key reverse xs =
     (if reverse then rev (sort_key key (rev xs)) else sort_key key xs)"

text \<open>The UTF-8 bytes of the symbols that start the script's messages.\<close>

definition sym_package :: string where "sym_package = [CHR 0xF0, CHR 0x9F, CHR 0x93, CHR 0xA6]"
definition sym_check :: string where "sym_check = [CHR 0xE2, CHR 0x9C, CHR 0x85]"
definition sym_warning :: string where
  "sym_warning = [CHR 0xE2, CHR 0x9A, CHR 0xA0, CHR 0xEF, CHR 0xB8, CHR 0x8F]"
definition sym_dash :: string where "sym_dash = [CHR 0xE2, CHR 0x80, CHR 0x94]"
definition sym_rocket :: string where "sym_rocket = [CHR 0xF0, CHR 0x9F, CHR 0x9A, CHR 0x80]"
definition sym_hourglass :: string where "sym_hourglass = [CHR 0xE2, CHR 0x8F, CHR 0xB3]"
definition sym_arrow :: string where "sym_arrow = [CHR 0xE2, CHR 0x86, CHR 0x92]"
definition sym_globe :: string where "sym_globe = [CHR 0xF0, CHR 0x9F, CHR 0x8C, CHR 0x8D]"
definition sym_target :: string where "sym_target = [CHR 0xF0, CHR 0x9F, CHR 0x8E, CHR 0xAF]"
definition sym_broom :: string where "sym_broom = [CHR 0xF0, CHR 0x9F, CHR 0xA7, CHR 0xB9]"
definition sym_cross :: string where "sym_cross = [CHR 0xE2, CHR 0x9D, CHR 0x8C]"

subsection \<open>Configuration\<close>

text \<open>
  The module's globals, read from the environment when the module is loaded.
  \<^verbatim>\<open>GITHUB_TOKEN\<close> and \<^verbatim>\<open>GITHUB_USERNAME\<close> have no default and may be \<^verbatim>\<open>None\<close>.
\<close>

record config =
  AWS_REGION :: string
  INSTANCE_TYPE :: string
  INSTANCE_COUNT :: int
  KEY_PAIR_NAME :: string
  SECURITY_GROUP_NAME :: string
  GITHUB_TOKEN :: "string option"
  GITHUB_USERNAME :: "string option"
  GITHUB_REPO_NAME :: string
  AMI_NAME_FILTER :: string

subsection \<open>Requests, responses and the outside world\<close>

datatype json_value = JString string | JBool bool

text \<open>
  A response of \<^verbatim>\<open>requests.post\<close>: \<^verbatim>\<open>resp.status_code\<close>, \<^verbatim>\<open>resp.text\<close> and
  \<^verbatim>\<open>resp.json()\<close>, which raises when the body is not JSON and otherwise gives a
  dictionary (GitHub's values read by the script are strings).
\<close>

record http_response =
  status_code :: int
  resp_text :: string
  json :: "exn + (string \<times> string) list"

record vpc =
  VpcId :: string

record vpcs_response =
  Vpcs :: "vpc list"

text \<open>A dictionary with a \<^verbatim>\<open>GroupId\<close>: the answer to a creation, or one described group.\<close>

record group_dict =
  GroupId :: string

record security_groups_response =
  SecurityGroups :: "group_dict list"

record ip_permission =
  IpProtocol :: string
  FromPort :: int
  ToPort :: int
  IpRanges :: "string list"

record image =
  ImageId :: string
  CreationDate :: string

record images_response =
  Images :: "image list"

record key_pair_response =
  KeyMaterial :: string

text \<open>The keyword arguments of \<^verbatim>\<open>ec2_resource.create_instances\<close>.\<close>

record create_instances_args =
  arg_ImageId :: string
  arg_MinCount :: int
  arg_MaxCount :: int
  arg_InstanceType :: string
  arg_KeyName :: string
  arg_SecurityGroupIds :: "string list"
  arg_UserData :: string
  arg_TagSpecifications :: "(string \<times> (string \<times> string) list) list"

text \<open>
  An instance object of the resource interface: its identity and the attribute the
  script reads, which is \<^verbatim>\<open>None\<close> for an instance without public address.
\<close>

record ec2_instance =
  instance_id :: string
  public_ip_address :: "string option"

text \<open>
  What a run does to the outside world, with the arguments it passes. \<open>Print\<close> is
  a call of \<^verbatim>\<open>print\<close> with its text, whether or not standard output takes it.
  The body of the POST request is kept as the
  dictionary handed to \<^verbatim>\<open>json.dumps\<close>.
  \<open>OpenForWriting\<close> and \<open>FileWrite\<close> are the two effects of
  \<^verbatim>\<open>with open(path, "w") as f: f.write(s)\<close>.
\<close>

datatype event =
    Print string
  | RequestsPost string "(string \<times> string) list" "(string \<times> json_value) list"
  | DescribeVpcs "(string \<times> string list) list"
  | CreateSecurityGroup string string string
  | AuthorizeSecurityGroupIngress string "ip_permission list"
  | DescribeSecurityGroups "string list"
  | DescribeImages "string list" "(string \<times> string list) list"
  | CreateKeyPair string
  | OpenForWriting string
  | FileWrite string string
  | Chmod string nat
  | CreateInstances create_instances_args
  | WaitUntilRunning string
  | Reload string

text \<open>
  The outside world: what each call answers, a value or an exception, given the
  arguments of the call. \<open>stdout_write\<close> is the answer of standard output to a
  \<^verbatim>\<open>print\<close>, which raises when the stream is closed or cannot encode the text.
  \<open>instance_reload\<close> answers the public address of the refreshed instance.
\<close>

record env =
  stdout_write :: "string \<Rightarrow> exn + unit"
  requests_post ::
    "string \<Rightarrow> (string \<times> string) list \<Rightarrow> (string \<times> json_value) list \<Rightarrow> exn + http_response"
  ec2_describe_vpcs :: "(string \<times> string list) list \<Rightarrow> exn + vpcs_response"
  ec2_create_security_group :: "string \<Rightarrow> string \<Rightarrow> string \<Rightarrow> exn + group_dict"
  ec2_authorize_security_group_ingress :: "string \<Rightarrow> ip_permission list \<Rightarrow> exn + unit"
  ec2_describe_security_groups :: "string list \<Rightarrow> exn + security_groups_response"
  ec2_describe_images ::
    "string list \<Rightarrow> (string \<times> string list) list \<Rightarrow> exn + images_response"
  ec2_create_key_pair :: "string \<Rightarrow> exn + key_pair_response"
  open_for_writing :: "string \<Rightarrow> exn + unit"
  file_write :: "string \<Rightarrow> string \<Rightarrow> exn + unit"
  os_chmod :: "string \<Rightarrow> nat \<Rightarrow> exn + unit"
  ec2_resource_create_instances :: "create_instances_args \<Rightarrow> exn + ec2_instance list"
  instance_wait_until_running :: "string \<Rightarrow> exn + unit"
  instance_reload :: "string \<Rightarrow> exn + string option"

subsection \<open>Runs\<close>

text \<open>A run: its result and what it did, in order.\<close>

type_synonym 'a run = "(exn + 'a) \<times> event list"

definition ret :: "'a \<Rightarrow> 'a run" where
  "ret x = (Inr x, [])"

definition raise_exn :: "exn \<Rightarrow> 'a run" where
  "raise_exn e = (Inl e, [])"

text \<open>One statement after another: an exception of the first ends the run.\<close>

definition pbind :: "'a run \<Rightarrow> ('a \<Rightarrow> 'b run) \<Rightarrow> 'b run" where
  "pbind m f =
     (case m of
        (Inl e, t) \<Rightarrow> (Inl e, t)
      | (Inr x, t) \<Rightarrow> (case f x of (r, t') \<Rightarrow> (r, t @ t')))"

text \<open>A call to the outside world: the event, and the world's answer.\<close>

definition call :: "event \<Rightarrow> exn + 'a \<Rightarrow> 'a run" where
  "call ev answer = (answer, [ev])"

text \<open>\<^verbatim>\<open>print(s)\<close>: a call to standard output.\<close>

definition print :: "env \<Rightarrow> string \<Rightarrow> unit run" where
  "print env s = call (Print s) (stdout_write env s)"

text \<open>\<^verbatim>\<open>try: m  except ClientError as e: h\<close>, the handler seeing \<^verbatim>\<open>str(e)\<close>.\<close>

definition except_ClientError :: "'a run \<Rightarrow> (string \<Rightarrow> 'a run) \<Rightarrow> 'a run" where
  "except_ClientError m h =
     (case m of
        (Inl (ClientError s), t) \<Rightarrow> (case h s of (r, t') \<Rightarrow> (r, t @ t'))
      | _ \<Rightarrow> m)"

text \<open>
  \<^verbatim>\<open>try: m  except Exception as e: h\<close>: an exception that is not of class
  \<^verbatim>\<open>Exception\<close> passes the handler.
\<close>

definition except_Exception :: "'a run \<Rightarrow> (exn \<Rightarrow> 'a run) \<Rightarrow> 'a run" where
  "except_Exception m h =
     (case m of
        (Inl e, t) \<Rightarrow>
          (if is_Exception e then (case h e of (r, t') \<Rightarrow> (r, t @ t')) else (Inl e, t))
      | (Inr x, t) \<Rightarrow> (Inr x, t))"

text \<open>\<^verbatim>\<open>xs[0]\<close>.\<close>

definition index0 :: "'a list \<Rightarrow> 'a run" where
  "index0 xs = (case xs of [] \<Rightarrow> raise_exn IndexError | x # _ \<Rightarrow> ret x)"

text \<open>\<^verbatim>\<open>for x in xs: f(x)\<close>.\<close>

fun for_each :: "('a \<Rightarrow> unit run) \<Rightarrow> 'a list \<Rightarrow> unit run" where
  "for_each f [] = ret ()"
| "for_each f (x # xs) = pbind (f x) (\<lambda>_. for_each f xs)"

text \<open>\<^verbatim>\<open>[f(x) for x in xs]\<close>.\<close>

fun comprehension :: "('a \<Rightarrow> 'b run) \<Rightarrow> 'a list \<Rightarrow> 'b list run" where
  "comprehension f [] = ret []"
| "comprehension f (x # xs) =
     pbind (f x) (\<lambda>y. pbind (comprehension f xs) (\<lambda>ys. ret (y # ys)))"

subsection \<open>The functions of the script\<close>

text \<open>\<^verbatim>\<open>create_github_repo()\<close>: creates a GitHub repository via the REST interface.\<close>

definition headers :: "config \<Rightarrow> (string \<times> string) list" where
  "headers cfg =
     [(''Authorization'', ''token '' @ str_opt (GITHUB_TOKEN cfg)),
      (''Accept'', ''application/vnd.github.v3+json'')]"

definition data :: "config \<Rightarrow> (string \<times> json_value) list" where
  "data cfg =
     [(''name'', JString (GITHUB_REPO_NAME cfg)),
      (''description'',
         JString ''Automatically created by Python script to deploy 50 AWS EC2 instances''),
      (''private'', JBool False)]"

definition create_github_repo :: "config \<Rightarrow> env \<Rightarrow> string run" where
  "create_github_repo cfg env =
     (if falsy (GITHUB_TOKEN cfg) \<or> falsy (GITHUB_USERNAME cfg) then
        raise_exn (ValueError ''Missing GITHUB_TOKEN or GITHUB_USERNAME environment variables.'')
      else
        pbind (print env (sym_package @ '' Creating GitHub repository '' @ [CHR 0x27]
                        @ GITHUB_REPO_NAME cfg @ [CHR 0x27] @ ''...'')) (\<lambda>_.
        pbind (call (RequestsPost ''https://api.github.com/user/repos'' (headers cfg) (data cfg))
                    (requests_post env ''https://api.github.com/user/repos'' (headers cfg) (data cfg)))
              (\<lambda>resp.
        if status_code resp = 201 \<or> status_code resp = 202 then
          pbind (print env (sym_check @ '' Repository created: https://github.com/''
                          @ str_opt (GITHUB_USERNAME cfg) @ ''/'' @ GITHUB_REPO_NAME cfg)) (\<lambda>_.
          (case json resp of
             Inl e \<Rightarrow> raise_exn e
           | Inr d \<Rightarrow>
               (case map_of d ''html_url'' of
                  None \<Rightarrow> raise_exn (KeyError ''html_url'')
                | Some url \<Rightarrow> ret url)))
        else if status_code resp = 422 then
          pbind (print env (sym_warning @ '' Repository already exists '' @ sym_dash
                          @ '' skipping creation.'')) (\<lambda>_.
          ret (''https://github.com/'' @ str_opt (GITHUB_USERNAME cfg) @ ''/''
                 @ GITHUB_REPO_NAME cfg))
        else
          raise_exn (Exception (''GitHub API error: '' @ str_int (status_code resp) @ '' - ''
                                  @ resp_text resp)))))"

text \<open>\<^verbatim>\<open>get_default_vpc_id()\<close>: the id of the first default VPC.\<close>

definition get_default_vpc_id :: "env \<Rightarrow> string run" where
  "get_default_vpc_id env =
     pbind (call (DescribeVpcs [(''isDefault'', [''true''])])
                 (ec2_describe_vpcs env [(''isDefault'', [''true''])])) (\<lambda>vpcs.
     pbind (index0 (Vpcs vpcs)) (\<lambda>v.
     ret (VpcId v)))"

text \<open>\<^verbatim>\<open>create_security_group(vpc_id)\<close>: a security group that allows SSH and HTTP.\<close>

definition ingress_rules :: "ip_permission list" where
  "ingress_rules =
     [\<lparr>IpProtocol = ''tcp'', FromPort = 22, ToPort = 22, IpRanges = [''0.0.0.0/0'']\<rparr>,
      \<lparr>IpProtocol = ''tcp'', FromPort = 80, ToPort = 80, IpRanges = [''0.0.0.0/0'']\<rparr>]"

definition create_security_group :: "config \<Rightarrow> env \<Rightarrow> string \<Rightarrow> string run" where
  "create_security_group cfg env vpc_id =
     except_ClientError
       (pbind (call (CreateSecurityGroup (SECURITY_GROUP_NAME cfg) ''Allow SSH and HTTP inbound'' vpc_id)
                    (ec2_create_security_group env (SECURITY_GROUP_NAME cfg)
                       ''Allow SSH and HTTP inbound'' vpc_id)) (\<lambda>response.
        let sg_id = GroupId response in
        pbind (print env (sym_check @ '' Security group created: '' @ sg_id)) (\<lambda>_.
        pbind (call (AuthorizeSecurityGroupIngress sg_id ingress_rules)
                    (ec2_authorize_security_group_ingress env sg_id ingress_rules)) (\<lambda>_.
        ret sg_id))))
       (\<lambda>e.
        if str_in ''InvalidGroup.Duplicate'' e then
          pbind (print env (sym_warning @ '' Security group already exists '' @ sym_dash
                          @ '' reusing it.'')) (\<lambda>_.
          pbind (call (DescribeSecurityGroups [SECURITY_GROUP_NAME cfg])
                      (ec2_describe_security_groups env [SECURITY_GROUP_NAME cfg])) (\<lambda>sgs.
          pbind (index0 (SecurityGroups sgs)) (\<lambda>g.
          ret (GroupId g))))
        else raise_exn (ClientError e))"

text \<open>\<^verbatim>\<open>get_latest_ami()\<close>: the id of the newest matching image.\<close>

definition get_latest_ami :: "config \<Rightarrow> env \<Rightarrow> string run" where
  "get_latest_ami cfg env =
     pbind (call (DescribeImages [''amazon''] [(''name'', [AMI_NAME_FILTER cfg])])
                 (ec2_describe_images env [''amazon''] [(''name'', [AMI_NAME_FILTER cfg])])) (\<lambda>r.
     let images = Images r;
         sorted_images = sorted_py CreationDate True images
     in
     pbind (index0 sorted_images) (\<lambda>i.
     ret (ImageId i)))"

text \<open>\<^verbatim>\<open>create_key_pair()\<close>: creates or reuses a key pair. \<^verbatim>\<open>0o400\<close> is 256.\<close>

definition create_key_pair :: "config \<Rightarrow> env \<Rightarrow> unit run" where
  "create_key_pair cfg env =
     except_ClientError
       (pbind (call (CreateKeyPair (KEY_PAIR_NAME cfg))
                    (ec2_create_key_pair env (KEY_PAIR_NAME cfg))) (\<lambda>key_pair.
        let private_key = KeyMaterial key_pair;
            key_path = KEY_PAIR_NAME cfg @ ''.pem''
        in
        pbind (call (OpenForWriting key_path) (open_for_writing env key_path)) (\<lambda>_.
        pbind (call (FileWrite key_path private_key) (file_write env key_path private_key)) (\<lambda>_.
        pbind (call (Chmod key_path 256) (os_chmod env key_path 256)) (\<lambda>_.
        print env (sym_check @ '' Created and saved new key pair at '' @ key_path))))))
       (\<lambda>e.
        if str_in ''InvalidKeyPair.Duplicate'' e then
          print env (sym_warning @ '' Key pair already exists '' @ sym_dash @ '' reusing it.'')
        else raise_exn (ClientError e))"

text \<open>\<^verbatim>\<open>launch_instances(ami_id, sg_id)\<close>: launches the instances.\<close>

definition user_data :: string where
  "user_data =
     ''#!/bin/bash'' @ [CHR 0x0A]
     @ ''                    yum update -y'' @ [CHR 0x0A]
     @ ''                    yum install -y httpd'' @ [CHR 0x0A]
     @ ''                    systemctl enable httpd'' @ [CHR 0x0A]
     @ ''                    systemctl start httpd'' @ [CHR 0x0A]
     @ ''                    echo 'Hello from EC2 Python deployer!' > /var/www/html/index.html''
     @ [CHR 0x0A]
     @ ''                 ''"

definition launch_request :: "config \<Rightarrow> string \<Rightarrow> string \<Rightarrow> create_instances_args" where
  "launch_request cfg ami_id sg_id =
     \<lparr>arg_ImageId = ami_id,
      arg_MinCount = INSTANCE_COUNT cfg,
      arg_MaxCount = INSTANCE_COUNT cfg,
      arg_InstanceType = INSTANCE_TYPE cfg,
      arg_KeyName = KEY_PAIR_NAME cfg,
      arg_SecurityGroupIds = [sg_id],
      arg_UserData = user_data,
      arg_TagSpecifications = [(''instance'', [(''Name'', ''PythonDeployedEC2'')])]\<rparr>"

definition launch_instances :: "config \<Rightarrow> env \<Rightarrow> string \<Rightarrow> string \<Rightarrow> string option list run" where
  "launch_instances cfg env ami_id sg_id =
     pbind (print env (sym_rocket @ '' Launching '' @ str_int (INSTANCE_COUNT cfg)
                     @ '' EC2 instances of type '' @ INSTANCE_TYPE cfg @ ''...'')) (\<lambda>_.
     pbind (call (CreateInstances (launch_request cfg ami_id sg_id))
                 (ec2_resource_create_instances env (launch_request cfg ami_id sg_id))) (\<lambda>instances.
     pbind (print env (sym_hourglass @ '' Waiting for instances to be running...'')) (\<lambda>_.
     pbind (for_each
              (\<lambda>i. call (WaitUntilRunning (instance_id i))
                         (instance_wait_until_running env (instance_id i)))
              instances) (\<lambda>_.
     pbind (comprehension
              (\<lambda>i. pbind (call (Reload (instance_id i)) (instance_reload env (instance_id i)))
                          (\<lambda>ip. ret (i\<lparr>public_ip_address := ip\<rparr>)))
              instances) (\<lambda>instances.
     let public_ips = map public_ip_address instances in
     pbind (print env (sym_check @ '' EC2 instances launched successfully:'')) (\<lambda>_.
     pbind (for_each (\<lambda>ip. print env (''   '' @ sym_arrow @ '' '' @ str_opt ip)) public_ips) (\<lambda>_.
     ret public_ips)))))))"

text \<open>\<^verbatim>\<open>main()\<close>.\<close>

definition main :: "config \<Rightarrow> env \<Rightarrow> unit run" where
  "main cfg env =
     pbind (print env (sym_globe @ '' Starting deployment...'')) (\<lambda>_.
     pbind (create_github_repo cfg env) (\<lambda>repo_url.
     pbind (create_key_pair cfg env) (\<lambda>_.
     pbind (get_default_vpc_id env) (\<lambda>vpc_id.
     pbind (create_security_group cfg env vpc_id) (\<lambda>sg_id.
     pbind (get_latest_ami cfg env) (\<lambda>ami_id.
     pbind (launch_instances cfg env ami_id sg_id) (\<lambda>ips.
     pbind (print env ([CHR 0x0A] @ sym_target @ '' Deployment Summary:'')) (\<lambda>_.
     pbind (print env (''GitHub Repo: '' @ repo_url)) (\<lambda>_.
     pbind (print env (''Instance Count: '' @ str_int (INSTANCE_COUNT cfg))) (\<lambda>_.
     pbind (print env ''Public IPs:'') (\<lambda>_.
     pbind (for_each (\<lambda>ip. print env (''  - '' @ str_opt ip)) ips) (\<lambda>_.
     pbind (print env ([CHR 0x0A] @ sym_broom @ '' To clean up later, run:'')) (\<lambda>_.
     pbind (print env ''  aws ec2 describe-instances --filters Name=tag:Name,Values=PythonDeployedEC2'') (\<lambda>_.
     print env ''  aws ec2 terminate-instances --instance-ids <ids>''))))))))))))))"

text \<open>
  The module's last statement: \<^verbatim>\<open>main()\<close> inside
  \<^verbatim>\<open>try: ... except Exception as e: print(...)\<close>.
\<close>

definition script :: "config \<Rightarrow> env \<Rightarrow> unit run" where
  "script cfg env =
     except_Exception (main cfg env) (\<lambda>e. print env (sym_cross @ '' Error: '' @ str_exn e))"


subsection \<open>Reading the record of a run\<close>

definition is_Print :: "event \<Rightarrow> bool" where
  "is_Print ev = (case ev of Print _ \<Rightarrow> True | _ \<Rightarrow> False)"

text \<open>The calls of a run to the outside world: everything but its printed lines.\<close>

definition calls :: "event list \<Rightarrow> event list" where
  "calls t = filter (\<lambda>ev. \<not> is_Print ev) t"

definition is_CreateInstances :: "event \<Rightarrow> bool" where
  "is_CreateInstances ev = (case ev of CreateInstances _ \<Rightarrow> True | _ \<Rightarrow> False)"

definition is_AuthorizeSecurityGroupIngress :: "event \<Rightarrow> bool" where
  "is_AuthorizeSecurityGroupIngress ev =
     (case ev of AuthorizeSecurityGroupIngress _ _ \<Rightarrow> True | _ \<Rightarrow> False)"

definition is_file_event :: "event \<Rightarrow> bool" where
  "is_file_event ev =
     (case ev of OpenForWriting _ \<Rightarrow> True | FileWrite _ _ \<Rightarrow> True | Chmod _ _ \<Rightarrow> True
      | _ \<Rightarrow> False)"

text \<open>
  The stage of \<^verbatim>\<open>main()\<close> an event belongs to, by the function that is the only one
  to issue it: 1 the repository, 2 the key pair, 3 the network, 4 the security group,
  5 the image, 6 the fleet; 0 for a printed line.
\<close>

definition stage_of :: "event \<Rightarrow> nat" where
  "stage_of ev =
     (case ev of
        Print _ \<Rightarrow> 0
      | RequestsPost _ _ _ \<Rightarrow> 1
      | CreateKeyPair _ \<Rightarrow> 2
      | OpenForWriting _ \<Rightarrow> 2
      | FileWrite _ _ \<Rightarrow> 2
      | Chmod _ _ \<Rightarrow> 2
      | DescribeVpcs _ \<Rightarrow> 3
      | CreateSecurityGroup _ _ _ \<Rightarrow> 4
      | AuthorizeSecurityGroupIngress _ _ \<Rightarrow> 4
      | DescribeSecurityGroups _ \<Rightarrow> 4
      | DescribeImages _ _ \<Rightarrow> 5
      | CreateInstances _ \<Rightarrow> 6
      | WaitUntilRunning _ \<Rightarrow> 6
      | Reload _ \<Rightarrow> 6)"

subsection \<open>A concrete configuration and concrete worlds\<close>

text \<open>
  The defaults of the script with a fleet of three, a world in which every call
  succeeds, and the variations of it in which one call answers differently.
\<close>

definition example_cfg :: config where
  "example_cfg =
     \<lparr>AWS_REGION = ''us-east-1'',
      INSTANCE_TYPE = ''t3.micro'',
      INSTANCE_COUNT = 3,
      KEY_PAIR_NAME = ''deployer-key'',
      SECURITY_GROUP_NAME = ''allow_ssh_http'',
      GITHUB_TOKEN = Some ''secret'',
      GITHUB_USERNAME = Some ''octocat'',
      GITHUB_REPO_NAME = ''aws-ec2-50'',
      AMI_NAME_FILTER = ''amzn2-ami-kernel-5.10-hvm-*-x86_64-gp2''\<rparr>"


definition example_images :: "image list" where
  "example_images =
     [\<lparr>ImageId = ''ami-january'', CreationDate = ''2024-01-01''\<rparr>,
      \<lparr>ImageId = ''ami-june'', CreationDate = ''2024-06-01''\<rparr>,
      \<lparr>ImageId = ''ami-december'', CreationDate = ''2023-12-01''\<rparr>]"

definition example_instances :: "ec2_instance list" where
  "example_instances =
     [\<lparr>instance_id = ''i-1'', public_ip_address = None\<rparr>,
      \<lparr>instance_id = ''i-2'', public_ip_address = None\<rparr>,
      \<lparr>instance_id = ''i-3'', public_ip_address = None\<rparr>]"

definition example_env :: env where
  "example_env =
     \<lparr>stdout_write = (\<lambda>s. Inr ()),
      requests_post = (\<lambda>url hs body.
        Inr \<lparr>status_code = 201, resp_text = ''{}'',
             json = Inr [(''html_url'', ''https://github.com/octocat/aws-ec2-50'')]\<rparr>),
      ec2_describe_vpcs = (\<lambda>fs. Inr \<lparr>Vpcs = [\<lparr>VpcId = ''vpc-1''\<rparr>]\<rparr>),
      ec2_create_security_group = (\<lambda>name description vpc_id. Inr \<lparr>GroupId = ''sg-new''\<rparr>),
      ec2_authorize_security_group_ingress = (\<lambda>sg_id perms. Inr ()),
      ec2_describe_security_groups =
        (\<lambda>names. Inr \<lparr>SecurityGroups = [\<lparr>GroupId = ''sg-old''\<rparr>]\<rparr>),
      ec2_describe_images = (\<lambda>owners fs. Inr \<lparr>Images = example_images\<rparr>),
      ec2_create_key_pair = (\<lambda>name. Inr \<lparr>KeyMaterial = ''PRIVATE KEY''\<rparr>),
      open_for_writing = (\<lambda>path. Inr ()),
      file_write = (\<lambda>path s. Inr ()),
      os_chmod = (\<lambda>path mode. Inr ()),
      ec2_resource_create_instances = (\<lambda>args. Inr example_instances),
      instance_wait_until_running = (\<lambda>i. Inr ()),
      instance_reload = (\<lambda>i.
        Inr (if i = ''i-1'' then Some ''1.2.3.4''
             else if i = ''i-2'' then Some ''5.6.7.8'' else None))\<rparr>"

definition conflict_response :: http_response where
  "conflict_response = \<lparr>status_code = 422, resp_text = ''{}'', json = Inr []\<rparr>"

definition existing_repo_env :: env where
  "existing_repo_env = example_env\<lparr>requests_post := (\<lambda>url hs body. Inr conflict_response)\<rparr>"

definition duplicate_key_text :: string where
  "duplicate_key_text =
     ''An error occurred (InvalidKeyPair.Duplicate) when calling the CreateKeyPair ''
     @ ''operation: The keypair already exists''"

definition existing_key_env :: env where
  "existing_key_env =
     example_env\<lparr>ec2_create_key_pair := (\<lambda>name. Inl (ClientError duplicate_key_text))\<rparr>"

definition duplicate_group_text :: string where
  "duplicate_group_text =
     ''An error occurred (InvalidGroup.Duplicate) when calling the ''
     @ ''CreateSecurityGroup operation: The security group already exists''"

definition existing_group_env :: env where
  "existing_group_env =
     example_env\<lparr>ec2_create_security_group :=
       (\<lambda>name description vpc_id. Inl (ClientError duplicate_group_text))\<rparr>"

definition failing_ingress_env :: env where
  "failing_ingress_env =
     example_env\<lparr>ec2_authorize_security_group_ingress :=
       (\<lambda>sg_id perms. Inl (ClientError ''An error occurred (RequestLimitExceeded)''))\<rparr>"

definition no_vpc_env :: env where
  "no_vpc_env = example_env\<lparr>ec2_describe_vpcs := (\<lambda>fs. Inr \<lparr>Vpcs = []\<rparr>)\<rparr>"

definition no_image_env :: env where
  "no_image_env = example_env\<lparr>ec2_describe_images := (\<lambda>owners fs. Inr \<lparr>Images = []\<rparr>)\<rparr>"




section \<open>Properties\<close>

subsection \<open>Rules for runs\<close>

lemma fst_pbind: "fst (pbind m f) = (case fst m of Inl e \<Rightarrow> Inl e | Inr x \<Rightarrow> fst (f x))"
  by (cases m) (auto simp: pbind_def split: sum.splits prod.splits)

lemma snd_pbind: "snd (pbind m f) = snd m @ (case fst m of Inl e \<Rightarrow> [] | Inr x \<Rightarrow> snd (f x))"
  by (cases m) (auto simp: pbind_def split: sum.splits prod.splits)

lemma fst_call [simp]: "fst (call ev a) = a"
  by (simp add: call_def)

lemma snd_call [simp]: "snd (call ev a) = [ev]"
  by (simp add: call_def)

lemma fst_print [simp]: "fst (print env s) = stdout_write env s"
  by (simp add: print_def)

lemma snd_print [simp]: "snd (print env s) = [Print s]"
  by (simp add: print_def)

lemma fst_ret [simp]: "fst (ret x) = Inr x"
  by (simp add: ret_def)

lemma snd_ret [simp]: "snd (ret x) = []"
  by (simp add: ret_def)

lemma fst_raise_exn [simp]: "fst (raise_exn e) = Inl e"
  by (simp add: raise_exn_def)

lemma snd_raise_exn [simp]: "snd (raise_exn e) = []"
  by (simp add: raise_exn_def)

lemma snd_index0 [simp]: "snd (index0 xs) = []"
  by (simp add: index0_def split: list.splits)

lemma pbind_print:
  "stdout_write env s = Inr () \<Longrightarrow> pbind (print env s) f = (fst (f ()), Print s # snd (f ()))"
  by (simp add: pbind_def print_def call_def split: prod.splits)


lemma print_ok: "stdout_write env s = Inr () \<Longrightarrow> print env s = (Inr (), [Print s])"
  by (simp add: print_def call_def)

lemma pbind_call_Inr: "pbind (call ev (Inr x)) f = (fst (f x), ev # snd (f x))"
  by (simp add: pbind_def call_def split: prod.splits)

lemma pbind_call_Inl: "pbind (call ev (Inl e)) f = (Inl e, [ev])"
  by (simp add: pbind_def call_def)

lemma pbind_Inr: "pbind (Inr x, t) f = (fst (f x), t @ snd (f x))"
  by (simp add: pbind_def split: prod.splits)

lemma pbind_Inl: "pbind (Inl e, t) f = (Inl e, t)"
  by (simp add: pbind_def)

lemma pbind_ret: "pbind (ret x) f = f x"
  by (simp add: pbind_def ret_def split: prod.splits)

lemmas run_simps = pbind_print print_ok pbind_call_Inr pbind_call_Inl pbind_Inr pbind_Inl pbind_ret

lemma pbind_fail: "fst m = Inl e \<Longrightarrow> pbind m f = (Inl e, snd m)"
  by (cases m) (simp add: pbind_def)

lemma pbind_ok: "fst m = Inr x \<Longrightarrow> pbind m f = (fst (f x), snd m @ snd (f x))"
  by (cases m) (simp add: pbind_def split: prod.splits)

lemma except_ClientError_caught:
  "except_ClientError (Inl (ClientError s), t) h = (fst (h s), t @ snd (h s))"
  by (simp add: except_ClientError_def split: prod.splits)

lemma snd_except_ClientError:
  "snd (except_ClientError m h) =
     snd m @ (case fst m of Inl (ClientError s) \<Rightarrow> snd (h s) | _ \<Rightarrow> [])"
  by (cases m) (auto simp: except_ClientError_def split: sum.splits exn.splits prod.splits)

subsection \<open>Loops\<close>

lemma filter_for_each:
  "(\<And>x. filter P (snd (f x)) = []) \<Longrightarrow> filter P (snd (for_each f xs)) = []"
  by (induction xs) (auto simp: snd_pbind split: sum.splits)

lemma filter_comprehension:
  "(\<And>x. filter P (snd (f x)) = []) \<Longrightarrow> filter P (snd (comprehension f xs)) = []"
  by (induction xs) (auto simp: snd_pbind split: sum.splits)

lemma for_each_calls:
  "(\<And>x. x \<in> set xs \<Longrightarrow> a x = Inr ()) \<Longrightarrow>
     for_each (\<lambda>x. call (ev x) (a x)) xs = (Inr (), map ev xs)"
  by (induction xs) (auto simp: pbind_def call_def ret_def)

lemma for_each_print:
  "(\<And>x. x \<in> set xs \<Longrightarrow> stdout_write env (g x) = Inr ()) \<Longrightarrow>
     for_each (\<lambda>x. print env (g x)) xs = (Inr (), map (\<lambda>x. Print (g x)) xs)"
  by (induction xs) (auto simp: pbind_def print_def call_def ret_def)

lemma comprehension_reload:
  "map (\<lambda>i. instance_reload env (instance_id i)) insts = map Inr ips \<Longrightarrow>
   comprehension
     (\<lambda>i. pbind (call (Reload (instance_id i)) (instance_reload env (instance_id i)))
                 (\<lambda>ip. ret (i\<lparr>public_ip_address := ip\<rparr>))) insts =
   (Inr (map (\<lambda>(i, ip). i\<lparr>public_ip_address := ip\<rparr>) (zip insts ips)),
    map (\<lambda>i. Reload (instance_id i)) insts)"
proof (induction insts arbitrary: ips)
  case Nil
  then show ?case by (simp add: ret_def)
next
  case (Cons i insts)
  then obtain ip ips' where ips: "ips = ip # ips'"
    by (cases ips) auto
  with Cons.prems have h: "instance_reload env (instance_id i) = Inr ip"
    and t: "map (\<lambda>i. instance_reload env (instance_id i)) insts = map Inr ips'"
    by auto
  show ?case
    using Cons.IH [OF t] h by (simp add: ips pbind_def call_def ret_def)
qed

lemma map_public_ip_address_zip:
  "length insts = length ips \<Longrightarrow>
   map public_ip_address (map (\<lambda>(i, ip). i\<lparr>public_ip_address := ip\<rparr>) (zip insts ips)) = ips"
  by (induction insts ips rule: list_induct2) auto

subsection \<open>The head of a list sorted in descending order\<close>

lemma last_filter_keep: "xs \<noteq> [] \<Longrightarrow> P (last xs) \<Longrightarrow> last (filter P xs) = last xs"
proof (induction xs)
  case Nil
  then show ?case by simp
next
  case (Cons a xs)
  show ?case
  proof (cases "xs = []")
    case True
    with Cons.prems show ?thesis by simp
  next
    case False
    with Cons.prems have p: "P (last xs)" by simp
    from False p have "filter P xs \<noteq> []"
      by (auto simp: filter_empty_conv intro: last_in_set)
    with Cons.IH [OF False p] False show ?thesis by simp
  qed
qed

lemma sorted_last_max:
  fixes f :: "'a \<Rightarrow> 'b::linorder"
  shows "sorted (map f xs) \<Longrightarrow> y \<in> set xs \<Longrightarrow> f y \<le> f (last xs)"
  by (induction xs) (auto split: if_splits)

text \<open>
  The first element of \<^verbatim>\<open>sorted(xs, key=key, reverse=True)\<close> is the first element
  of \<open>xs\<close> whose key is maximal.
\<close>

lemma hd_sorted_py_reverse:
  assumes "xs \<noteq> []"
  shows "\<exists>pre x post. xs = pre @ x # post \<and> hd (sorted_py key True xs) = x
           \<and> (\<forall>y \<in> set pre. key y < key x) \<and> (\<forall>y \<in> set post. key y \<le> key x)"
proof -
  define S where "S = sort_key key (rev xs)"
  define l where "l = last S"
  have ne: "S \<noteq> []"
    using assms by (metis S_def length_sort length_rev length_0_conv)
  have hd: "hd (sorted_py key True xs) = l"
    by (simp add: sorted_py_def S_def [symmetric] hd_rev l_def)
  have mx: "key y \<le> key l" if "y \<in> set xs" for y
    using sorted_last_max [of key S y] that
    by (simp add: S_def [symmetric] l_def) (simp add: S_def)
  have "last (filter (\<lambda>y. key y = key l) S) = l"
    using last_filter_keep [of S "\<lambda>y. key y = key l"] ne by (simp add: l_def)
  moreover have "filter (\<lambda>y. key y = key l) S = rev (filter (\<lambda>y. key y = key l) xs)"
    by (simp add: S_def sort_key_stable rev_filter)
  ultimately have "last (rev (filter (\<lambda>y. key y = key l) xs)) = l"
    by simp
  moreover have "filter (\<lambda>y. key y = key l) xs \<noteq> []"
  proof -
    have "l \<in> set S" using ne by (simp add: l_def)
    then have "l \<in> set xs" by (simp add: S_def)
    then show ?thesis by (auto simp: filter_empty_conv)
  qed
  ultimately obtain rest where "filter (\<lambda>y. key y = key l) xs = l # rest"
    by (cases "filter (\<lambda>y. key y = key l) xs") auto
  then obtain pre post where xs: "xs = pre @ l # post"
    and pre: "\<forall>u \<in> set pre. key u \<noteq> key l"
    by (auto simp: filter_eq_Cons_iff)
  have "\<forall>y \<in> set pre. key y < key l"
    using pre mx xs by (metis Un_iff order_le_imp_less_or_eq set_append)
  moreover have "\<forall>y \<in> set post. key y \<le> key l"
    using mx xs by simp
  ultimately show ?thesis
    using xs hd by blast
qed

subsection \<open>The events of each stage\<close>

lemma stage_create_github_repo:
  "ev \<in> set (snd (create_github_repo cfg env)) \<Longrightarrow> stage_of ev \<le> 1"
  by (auto simp: create_github_repo_def snd_pbind stage_of_def
      split: if_splits sum.splits option.splits)

lemma stage_create_key_pair:
  "ev \<in> set (snd (create_key_pair cfg env)) \<Longrightarrow> stage_of ev \<le> 2"
  by (auto simp: create_key_pair_def snd_except_ClientError snd_pbind fst_pbind stage_of_def
      Let_def split: if_splits sum.splits exn.splits)

lemma stage_get_default_vpc_id:
  "ev \<in> set (snd (get_default_vpc_id env)) \<Longrightarrow> stage_of ev \<le> 3"
  by (auto simp: get_default_vpc_id_def snd_pbind stage_of_def split: if_splits sum.splits)

lemma stage_create_security_group:
  "ev \<in> set (snd (create_security_group cfg env vpc_id)) \<Longrightarrow> stage_of ev \<le> 4"
  by (auto simp: create_security_group_def snd_except_ClientError snd_pbind fst_pbind
      stage_of_def Let_def split: if_splits sum.splits exn.splits)

lemma stage_get_latest_ami:
  "ev \<in> set (snd (get_latest_ami cfg env)) \<Longrightarrow> stage_of ev \<le> 5"
  by (auto simp: get_latest_ami_def snd_pbind stage_of_def Let_def split: if_splits sum.splits)

subsection \<open>The concrete worlds\<close>

lemma create_github_repo_example:
  "stdout_write env = stdout_write example_env \<Longrightarrow>
   requests_post env = requests_post example_env \<Longrightarrow>
   fst (create_github_repo example_cfg env) = Inr ''https://github.com/octocat/aws-ec2-50''"
  by (simp add: create_github_repo_def example_cfg_def example_env_def falsy_def run_simps)

lemma create_key_pair_example:
  "stdout_write env = stdout_write example_env \<Longrightarrow>
   ec2_create_key_pair env = ec2_create_key_pair example_env \<Longrightarrow>
   open_for_writing env = open_for_writing example_env \<Longrightarrow>
   file_write env = file_write example_env \<Longrightarrow>
   os_chmod env = os_chmod example_env \<Longrightarrow>
   fst (create_key_pair example_cfg env) = Inr ()"
  by (simp add: create_key_pair_def example_env_def run_simps except_ClientError_def Let_def)

lemma get_default_vpc_id_no_vpc: "fst (get_default_vpc_id no_vpc_env) = Inl IndexError"
  by (simp add: get_default_vpc_id_def no_vpc_env_def run_simps index0_def raise_exn_def)

lemma stdout_write_example [simp]: "stdout_write example_env s = Inr ()"
  by (simp add: example_env_def)

section \<open>The claims\<close>

text \<open>
  C1. For every fleet size \<open>N \<ge> 1\<close>, launching the fleet issues exactly one
  batch-creation call, with \<^verbatim>\<open>MinCount = MaxCount = N\<close>: among everything
  \<^verbatim>\<open>launch_instances\<close> does, whatever the provider answers, there is one
  \<^verbatim>\<open>create_instances\<close> call and no other. (The call follows the first printed
  line of the function, which standard output is assumed to take.)
\<close>

theorem launch_instances_one_batch_call:
  assumes "INSTANCE_COUNT cfg = N" and "1 \<le> N"
    and "stdout_write env (sym_rocket @ '' Launching '' @ str_int (INSTANCE_COUNT cfg)
                            @ '' EC2 instances of type '' @ INSTANCE_TYPE cfg @ ''...'') = Inr ()"
  shows "filter is_CreateInstances (snd (launch_instances cfg env ami_id sg_id)) =
           [CreateInstances (launch_request cfg ami_id sg_id)]
       \<and> arg_MinCount (launch_request cfg ami_id sg_id) = N
       \<and> arg_MaxCount (launch_request cfg ami_id sg_id) = N"
proof -
  have "filter is_CreateInstances (snd (launch_instances cfg env ami_id sg_id)) =
           [CreateInstances (launch_request cfg ami_id sg_id)]"
    using assms(3)
    by (simp add: launch_instances_def snd_pbind fst_pbind filter_for_each filter_comprehension
        is_CreateInstances_def Let_def split: sum.splits)
  then show ?thesis
    using assms(1) by (simp add: launch_request_def)
qed

theorem launch_instances_one_batch_call_witness:
  "INSTANCE_COUNT example_cfg = 3 \<and> (1::int) \<le> 3
   \<and> filter is_CreateInstances (snd (launch_instances example_cfg example_env ''ami-june'' ''sg-new'')) =
       [CreateInstances (launch_request example_cfg ''ami-june'' ''sg-new'')]
   \<and> arg_MinCount (launch_request example_cfg ''ami-june'' ''sg-new'') = 3
   \<and> arg_MaxCount (launch_request example_cfg ''ami-june'' ''sg-new'') = 3"
proof -
  have n: "INSTANCE_COUNT example_cfg = 3"
    by (simp add: example_cfg_def)
  have p: "(1::int) \<le> 3"
    by simp
  show ?thesis
    using launch_instances_one_batch_call
            [OF n p stdout_write_example, of "''ami-june''" "''sg-new''"] n
    by simp
qed

text \<open>
  C2. When the creation call succeeds and every instance of the batch reaches the
  running state and is refreshed, \<^verbatim>\<open>launch_instances\<close> returns the public addresses of
  the instances in the order in which the provider returned them, which is the order of
  the waits, one entry per instance, a missing address staying \<^verbatim>\<open>None\<close>. The whole
  record of the run is given. (Standard output is assumed to take every line.)
\<close>

theorem launch_instances_returns_public_ips:
  assumes "ec2_resource_create_instances env (launch_request cfg ami_id sg_id) = Inr insts"
    and "\<forall>i \<in> set insts. instance_wait_until_running env (instance_id i) = Inr ()"
    and "map (\<lambda>i. instance_reload env (instance_id i)) insts = map Inr ips"
    and "\<And>s. stdout_write env s = Inr ()"
  shows "launch_instances cfg env ami_id sg_id =
     (Inr ips,
      [Print (sym_rocket @ '' Launching '' @ str_int (INSTANCE_COUNT cfg)
                @ '' EC2 instances of type '' @ INSTANCE_TYPE cfg @ ''...''),
       CreateInstances (launch_request cfg ami_id sg_id),
       Print (sym_hourglass @ '' Waiting for instances to be running...'')]
      @ map (\<lambda>i. WaitUntilRunning (instance_id i)) insts
      @ map (\<lambda>i. Reload (instance_id i)) insts
      @ [Print (sym_check @ '' EC2 instances launched successfully:'')]
      @ map (\<lambda>ip. Print (''   '' @ sym_arrow @ '' '' @ str_opt ip)) ips)
    \<and> length ips = length insts"
proof -
  have len: "length insts = length ips"
    using assms(3) by (metis length_map)
  have w: "for_each (\<lambda>i. call (WaitUntilRunning (instance_id i))
                         (instance_wait_until_running env (instance_id i))) insts
           = (Inr (), map (\<lambda>i. WaitUntilRunning (instance_id i)) insts)"
    using assms(2) by (intro for_each_calls) auto
  obtain insts' where
    c: "comprehension
         (\<lambda>i. pbind (call (Reload (instance_id i)) (instance_reload env (instance_id i)))
                 (\<lambda>ip. ret (i\<lparr>public_ip_address := ip\<rparr>))) insts =
        (Inr insts', map (\<lambda>i. Reload (instance_id i)) insts)"
    and m: "map public_ip_address insts' = ips"
    using comprehension_reload [OF assms(3)] map_public_ip_address_zip [OF len] by blast
  show ?thesis
    unfolding launch_instances_def
    by (simp add: assms(1) assms(4) w c m for_each_print len pbind_print pbind_call_Inr pbind_Inr
        pbind_ret Let_def del: map_map)
qed

theorem launch_instances_returns_public_ips_witness:
  "ec2_resource_create_instances example_env (launch_request example_cfg ''ami-june'' ''sg-new'')
     = Inr example_instances
   \<and> fst (launch_instances example_cfg example_env ''ami-june'' ''sg-new'') =
       Inr [Some ''1.2.3.4'', Some ''5.6.7.8'', None]"
  using launch_instances_returns_public_ips
          [of example_env example_cfg "''ami-june''" "''sg-new''" example_instances
              "[Some ''1.2.3.4'', Some ''5.6.7.8'', None]"]
  by (simp add: example_env_def example_instances_def)

text \<open>
  C3. When the creation request is answered with status 422, \<^verbatim>\<open>create_github_repo\<close>
  does not raise: it returns \<^verbatim>\<open>https://github.com/<owner>/<name>\<close> built from the
  configuration, and apart from its printed lines the request is its only call to the
  outside world, so the real URL is never asked for. (A request is sent only when token and owner are non-empty;
  standard output is assumed to take the two lines printed on this path.)
\<close>

theorem create_github_repo_conflict_returns_built_url:
  assumes "GITHUB_TOKEN cfg = Some token" and "token \<noteq> []"
    and "GITHUB_USERNAME cfg = Some owner" and "owner \<noteq> []"
    and "requests_post env ''https://api.github.com/user/repos'' (headers cfg) (data cfg) = Inr resp"
    and "status_code resp = 422"
    and "stdout_write env (sym_package @ '' Creating GitHub repository '' @ [CHR 0x27]
                            @ GITHUB_REPO_NAME cfg @ [CHR 0x27] @ ''...'') = Inr ()"
    and "stdout_write env (sym_warning @ '' Repository already exists '' @ sym_dash
                            @ '' skipping creation.'') = Inr ()"
  shows "fst (create_github_repo cfg env) =
           Inr (''https://github.com/'' @ owner @ ''/'' @ GITHUB_REPO_NAME cfg)
       \<and> calls (snd (create_github_repo cfg env)) =
           [RequestsPost ''https://api.github.com/user/repos'' (headers cfg) (data cfg)]"
  using assms
  by (simp add: create_github_repo_def falsy_def str_opt_def run_simps calls_def is_Print_def)

theorem create_github_repo_conflict_returns_built_url_witness:
  "status_code conflict_response = 422
   \<and> fst (create_github_repo example_cfg existing_repo_env) =
       Inr ''https://github.com/octocat/aws-ec2-50''
   \<and> calls (snd (create_github_repo example_cfg existing_repo_env)) =
       [RequestsPost ''https://api.github.com/user/repos'' (headers example_cfg) (data example_cfg)]"
  using create_github_repo_conflict_returns_built_url
          [of example_cfg "''secret''" "''octocat''" existing_repo_env conflict_response]
  by (simp add: example_cfg_def existing_repo_env_def conflict_response_def calls_def is_Print_def
      example_env_def)

text \<open>
  C4. When the creation of the key pair fails with a duplicate-key-name error,
  \<^verbatim>\<open>create_key_pair\<close> does not raise and touches no file: the run is the creation
  call and one warning line, with no opening, writing or permission change of the
  \<^verbatim>\<open>.pem\<close> file. (Standard output is assumed to take the warning line.)
\<close>

theorem create_key_pair_duplicate_writes_nothing:
  assumes "ec2_create_key_pair env (KEY_PAIR_NAME cfg) = Inl (ClientError s)"
    and "str_in ''InvalidKeyPair.Duplicate'' s"
    and "stdout_write env (sym_warning @ '' Key pair already exists '' @ sym_dash
                            @ '' reusing it.'') = Inr ()"
  shows "create_key_pair cfg env =
           (Inr (),
            [CreateKeyPair (KEY_PAIR_NAME cfg),
             Print (sym_warning @ '' Key pair already exists '' @ sym_dash @ '' reusing it.'')])
       \<and> filter is_file_event (snd (create_key_pair cfg env)) = []"
  using assms
  by (simp add: create_key_pair_def run_simps except_ClientError_caught is_file_event_def)

theorem create_key_pair_duplicate_writes_nothing_witness:
  "str_in ''InvalidKeyPair.Duplicate'' duplicate_key_text
   \<and> create_key_pair example_cfg existing_key_env =
       (Inr (),
        [CreateKeyPair ''deployer-key'',
         Print (sym_warning @ '' Key pair already exists '' @ sym_dash @ '' reusing it.'')])
   \<and> filter is_file_event (snd (create_key_pair example_cfg existing_key_env)) = []"
proof -
  have d: "str_in ''InvalidKeyPair.Duplicate'' duplicate_key_text"
    by (simp add: duplicate_key_text_def startswith_def)
  have a: "ec2_create_key_pair existing_key_env (KEY_PAIR_NAME example_cfg)
             = Inl (ClientError duplicate_key_text)"
    by (simp add: existing_key_env_def)
  have n: "KEY_PAIR_NAME example_cfg = ''deployer-key''"
    by (simp add: example_cfg_def)
  have o: "stdout_write existing_key_env (sym_warning @ '' Key pair already exists '' @ sym_dash
                            @ '' reusing it.'') = Inr ()"
    by (simp add: existing_key_env_def)
  show ?thesis
    using create_key_pair_duplicate_writes_nothing [OF a d o] d
    by (simp add: n is_file_event_def)
qed

text \<open>
  C5. When the creation of the security group fails with a duplicate-group error,
  \<^verbatim>\<open>create_security_group\<close> looks the group up by its name and returns the id of the
  first group of the answer (a failing or empty lookup raises); its calls are the creation
  and the lookup, so there is no ingress-rule call and the rules of the existing group are
  neither read nor changed. (Standard output is assumed to take the warning line.)
\<close>

theorem create_security_group_duplicate_reuses_group:
  assumes "ec2_create_security_group env (SECURITY_GROUP_NAME cfg) ''Allow SSH and HTTP inbound''
             vpc_id = Inl (ClientError s)"
    and "str_in ''InvalidGroup.Duplicate'' s"
    and "stdout_write env (sym_warning @ '' Security group already exists '' @ sym_dash
                            @ '' reusing it.'') = Inr ()"
  shows "fst (create_security_group cfg env vpc_id) =
           (case ec2_describe_security_groups env [SECURITY_GROUP_NAME cfg] of
              Inl e \<Rightarrow> Inl e
            | Inr sgs \<Rightarrow>
                (case SecurityGroups sgs of [] \<Rightarrow> Inl IndexError | g # _ \<Rightarrow> Inr (GroupId g)))
       \<and> calls (snd (create_security_group cfg env vpc_id)) =
           [CreateSecurityGroup (SECURITY_GROUP_NAME cfg) ''Allow SSH and HTTP inbound'' vpc_id,
            DescribeSecurityGroups [SECURITY_GROUP_NAME cfg]]
       \<and> filter is_AuthorizeSecurityGroupIngress (snd (create_security_group cfg env vpc_id)) = []"
  using assms
  by (simp add: create_security_group_def run_simps except_ClientError_caught index0_def
      calls_def is_Print_def is_AuthorizeSecurityGroupIngress_def fst_pbind snd_pbind
      split: sum.splits list.splits)

theorem create_security_group_duplicate_reuses_group_witness:
  "str_in ''InvalidGroup.Duplicate'' duplicate_group_text
   \<and> fst (create_security_group example_cfg existing_group_env ''vpc-1'') = Inr ''sg-old''
   \<and> calls (snd (create_security_group example_cfg existing_group_env ''vpc-1'')) =
       [CreateSecurityGroup ''allow_ssh_http'' ''Allow SSH and HTTP inbound'' ''vpc-1'',
        DescribeSecurityGroups [''allow_ssh_http'']]
   \<and> filter is_AuthorizeSecurityGroupIngress
        (snd (create_security_group example_cfg existing_group_env ''vpc-1'')) = []"
proof -
  have d: "str_in ''InvalidGroup.Duplicate'' duplicate_group_text"
    by (simp add: duplicate_group_text_def startswith_def)
  have a: "ec2_create_security_group existing_group_env (SECURITY_GROUP_NAME example_cfg)
             ''Allow SSH and HTTP inbound'' ''vpc-1'' = Inl (ClientError duplicate_group_text)"
    by (simp add: existing_group_env_def)
  have n: "SECURITY_GROUP_NAME example_cfg = ''allow_ssh_http''"
    by (simp add: example_cfg_def)
  have o: "stdout_write existing_group_env (sym_warning @ '' Security group already exists ''
                            @ sym_dash @ '' reusing it.'') = Inr ()"
    by (simp add: existing_group_env_def)
  show ?thesis
    using create_security_group_duplicate_reuses_group [OF a d o] d
    by (simp add: n existing_group_env_def example_env_def calls_def is_Print_def
        is_AuthorizeSecurityGroupIngress_def)
qed

text \<open>
  C6. When the provider answers an empty list where one entry is expected, the lookup
  fails with the error of an empty result and the run does not crash:
  \<^verbatim>\<open>get_default_vpc_id\<close> on an empty list of default networks and
  \<^verbatim>\<open>get_latest_ami\<close> on an empty list of images each raise the \<^verbatim>\<open>IndexError\<close>
  of \<^verbatim>\<open>[0]\<close> on an empty list (the script has no exception class of its own; this is
  the failure the specification names NotFoundError), and the handler around
  \<^verbatim>\<open>main()\<close> catches it and prints the error line (which standard output is
  assumed to take).
\<close>

theorem empty_result_raises_IndexError:
  "(ec2_describe_vpcs env [(''isDefault'', [''true''])] = Inr r \<and> Vpcs r = [] \<longrightarrow>
      get_default_vpc_id env = (Inl IndexError, [DescribeVpcs [(''isDefault'', [''true''])]]))
 \<and> (ec2_describe_images env [''amazon''] [(''name'', [AMI_NAME_FILTER cfg])] = Inr r'
      \<and> Images r' = [] \<longrightarrow>
      get_latest_ami cfg env =
        (Inl IndexError, [DescribeImages [''amazon''] [(''name'', [AMI_NAME_FILTER cfg])]]))
 \<and> (fst (main cfg env) = Inl IndexError
      \<and> stdout_write env (sym_cross @ '' Error: list index out of range'') = Inr () \<longrightarrow>
      script cfg env =
        (Inr (), snd (main cfg env) @ [Print (sym_cross @ '' Error: list index out of range'')]))"
proof -
  have "fst (main cfg env) = Inl IndexError \<Longrightarrow>
      stdout_write env (sym_cross @ '' Error: list index out of range'') = Inr () \<Longrightarrow>
      script cfg env =
        (Inr (), snd (main cfg env) @ [Print (sym_cross @ '' Error: list index out of range'')])"
    by (cases "main cfg env")
      (simp add: script_def except_Exception_def is_Exception_def print_def call_def str_exn_def)
  then show ?thesis
    by (simp add: get_default_vpc_id_def get_latest_ami_def run_simps index0_def raise_exn_def
        sorted_py_def)
qed

theorem empty_result_raises_IndexError_witness:
  "get_default_vpc_id no_vpc_env =
     (Inl IndexError, [DescribeVpcs [(''isDefault'', [''true''])]])
   \<and> get_latest_ami example_cfg no_image_env =
     (Inl IndexError,
      [DescribeImages [''amazon''] [(''name'', [''amzn2-ami-kernel-5.10-hvm-*-x86_64-gp2''])]])
   \<and> fst (main example_cfg no_vpc_env) = Inl IndexError
   \<and> script example_cfg no_vpc_env =
     (Inr (),
      snd (main example_cfg no_vpc_env) @ [Print (sym_cross @ '' Error: list index out of range'')])"
proof -
  have r: "fst (create_github_repo example_cfg no_vpc_env) =
             Inr ''https://github.com/octocat/aws-ec2-50''"
    by (rule create_github_repo_example) (simp_all add: no_vpc_env_def)
  have k: "fst (create_key_pair example_cfg no_vpc_env) = Inr ()"
    by (rule create_key_pair_example) (simp_all add: no_vpc_env_def)
  have m: "fst (main example_cfg no_vpc_env) = Inl IndexError"
    by (simp add: main_def pbind_print no_vpc_env_def [THEN arg_cong, of stdout_write]
        pbind_ok [OF r] pbind_ok [OF k] pbind_fail [OF get_default_vpc_id_no_vpc])
  have v: "ec2_describe_vpcs no_vpc_env [(''isDefault'', [''true''])] = Inr \<lparr>Vpcs = []\<rparr>"
    by (simp add: no_vpc_env_def)
  have i: "ec2_describe_images no_image_env [''amazon''] [(''name'', [AMI_NAME_FILTER example_cfg])]
             = Inr \<lparr>Images = []\<rparr>"
    by (simp add: no_image_env_def)
  have a: "AMI_NAME_FILTER example_cfg = ''amzn2-ami-kernel-5.10-hvm-*-x86_64-gp2''"
    by (simp add: example_cfg_def)
  show ?thesis
    using empty_result_raises_IndexError
            [where env = no_vpc_env and r = "\<lparr>Vpcs = []\<rparr>" and cfg = example_cfg]
      empty_result_raises_IndexError
            [where env = no_image_env and r' = "\<lparr>Images = []\<rparr>" and cfg = example_cfg]
      m v i
    by (simp add: a no_vpc_env_def [THEN arg_cong, of stdout_write])
qed

text \<open>
  C7. For every non-empty list of matching images, \<^verbatim>\<open>get_latest_ami\<close> returns the id
  of an image whose creation date is maximal (dates compare as strings), namely the first
  such image of the list, and the result depends on nothing but the list: two worlds that
  answer the same list give the same run.
\<close>

theorem get_latest_ami_returns_newest:
  assumes "ec2_describe_images env [''amazon''] [(''name'', [AMI_NAME_FILTER cfg])] = Inr r"
    and "Images r \<noteq> []"
  shows "(\<exists>pre i post. Images r = pre @ i # post
            \<and> fst (get_latest_ami cfg env) = Inr (ImageId i)
            \<and> (\<forall>j \<in> set pre. CreationDate j < CreationDate i)
            \<and> (\<forall>j \<in> set post. CreationDate j \<le> CreationDate i))
       \<and> (\<forall>env'. ec2_describe_images env' [''amazon''] [(''name'', [AMI_NAME_FILTER cfg])] = Inr r
             \<longrightarrow> get_latest_ami cfg env' = get_latest_ami cfg env)"
proof
  obtain pre i post where d: "Images r = pre @ i # post"
    and h: "hd (sorted_py CreationDate True (Images r)) = i"
    and o: "\<forall>j \<in> set pre. CreationDate j < CreationDate i"
           "\<forall>j \<in> set post. CreationDate j \<le> CreationDate i"
    using hd_sorted_py_reverse [OF assms(2), of CreationDate] by blast
  have "sorted_py CreationDate True (Images r) \<noteq> []"
    using assms(2) by (simp add: sorted_py_def) (metis length_0_conv length_sort length_rev)
  then have "index0 (sorted_py CreationDate True (Images r)) = (Inr i, [])"
    using h by (cases "sorted_py CreationDate True (Images r)") (auto simp: index0_def ret_def)
  then have "fst (get_latest_ami cfg env) = Inr (ImageId i)"
    by (simp add: get_latest_ami_def assms(1) run_simps Let_def)
  with d o show "\<exists>pre i post. Images r = pre @ i # post
            \<and> fst (get_latest_ami cfg env) = Inr (ImageId i)
            \<and> (\<forall>j \<in> set pre. CreationDate j < CreationDate i)
            \<and> (\<forall>j \<in> set post. CreationDate j \<le> CreationDate i)"
    by blast
next
  show "\<forall>env'. ec2_describe_images env' [''amazon''] [(''name'', [AMI_NAME_FILTER cfg])] = Inr r
             \<longrightarrow> get_latest_ami cfg env' = get_latest_ami cfg env"
    by (simp add: get_latest_ami_def assms(1))
qed

theorem get_latest_ami_returns_newest_witness:
  "map CreationDate example_images = [''2024-01-01'', ''2024-06-01'', ''2023-12-01'']
   \<and> example_images \<noteq> []
   \<and> fst (get_latest_ami example_cfg example_env) = Inr ''ami-june''"
proof -
  have r: "ec2_describe_images example_env [''amazon''] [(''name'', [AMI_NAME_FILTER example_cfg])]
             = Inr \<lparr>Images = example_images\<rparr>"
    by (simp add: example_env_def)
  have ne: "Images \<lparr>Images = example_images\<rparr> \<noteq> []"
    by (simp add: example_images_def)
  from get_latest_ami_returns_newest [OF r ne] obtain pre i post where
    d: "example_images = pre @ i # post"
    and f: "fst (get_latest_ami example_cfg example_env) = Inr (ImageId i)"
    and o: "\<forall>j \<in> set pre. CreationDate j < CreationDate i"
           "\<forall>j \<in> set post. CreationDate j \<le> CreationDate i"
    by auto
  have "set example_images = set pre \<union> {i} \<union> set post"
    by (subst d) auto
  then have "\<forall>j \<in> set example_images. CreationDate j \<le> CreationDate i"
    using o by (auto intro: less_imp_le)
  then have "''2024-06-01'' \<le> CreationDate i"
    by (simp add: example_images_def)
  moreover have "i \<in> set example_images"
    by (subst d) simp
  ultimately have "ImageId i = ''ami-june''"
    by (auto simp: example_images_def)
  moreover have "map CreationDate example_images = [''2024-01-01'', ''2024-06-01'', ''2023-12-01'']"
    by (simp add: example_images_def)
  ultimately show ?thesis
    using f ne by simp
qed

text \<open>
  C8. \<^verbatim>\<open>main()\<close> runs the stages in the order repository, key pair, network,
  security group, image, fleet. If a stage raises after the stages before it returned,
  \<^verbatim>\<open>main()\<close> raises the same exception and the run holds no event of a later stage.
  In particular, when the lookup of the default network raises after the repository and
  the key pair succeeded, no \<^verbatim>\<open>create_instances\<close> call is ever issued. (The fleet is
  the last stage, so nothing comes after it. The stages follow the first printed line of
  \<^verbatim>\<open>main()\<close>, which standard output is assumed to take.)
\<close>

theorem main_stops_at_first_failure:
  assumes "stdout_write env (sym_globe @ '' Starting deployment...'') = Inr ()"
  shows
  "(fst (create_github_repo cfg env) = Inl e \<longrightarrow>
      fst (main cfg env) = Inl e \<and> (\<forall>ev \<in> set (snd (main cfg env)). stage_of ev \<le> 1))
 \<and> (fst (create_github_repo cfg env) = Inr repo_url \<and> fst (create_key_pair cfg env) = Inl e \<longrightarrow>
      fst (main cfg env) = Inl e \<and> (\<forall>ev \<in> set (snd (main cfg env)). stage_of ev \<le> 2))
 \<and> (fst (create_github_repo cfg env) = Inr repo_url \<and> fst (create_key_pair cfg env) = Inr ()
      \<and> fst (get_default_vpc_id env) = Inl e \<longrightarrow>
      fst (main cfg env) = Inl e \<and> (\<forall>ev \<in> set (snd (main cfg env)). stage_of ev \<le> 3)
      \<and> filter is_CreateInstances (snd (main cfg env)) = [])
 \<and> (fst (create_github_repo cfg env) = Inr repo_url \<and> fst (create_key_pair cfg env) = Inr ()
      \<and> fst (get_default_vpc_id env) = Inr vpc_id
      \<and> fst (create_security_group cfg env vpc_id) = Inl e \<longrightarrow>
      fst (main cfg env) = Inl e \<and> (\<forall>ev \<in> set (snd (main cfg env)). stage_of ev \<le> 4))
 \<and> (fst (create_github_repo cfg env) = Inr repo_url \<and> fst (create_key_pair cfg env) = Inr ()
      \<and> fst (get_default_vpc_id env) = Inr vpc_id
      \<and> fst (create_security_group cfg env vpc_id) = Inr sg_id
      \<and> fst (get_latest_ami cfg env) = Inl e \<longrightarrow>
      fst (main cfg env) = Inl e \<and> (\<forall>ev \<in> set (snd (main cfg env)). stage_of ev \<le> 5))
 \<and> (fst (create_github_repo cfg env) = Inr repo_url \<and> fst (create_key_pair cfg env) = Inr ()
      \<and> fst (get_default_vpc_id env) = Inr vpc_id
      \<and> fst (create_security_group cfg env vpc_id) = Inr sg_id
      \<and> fst (get_latest_ami cfg env) = Inr ami_id
      \<and> fst (launch_instances cfg env ami_id sg_id) = Inl e \<longrightarrow>
      fst (main cfg env) = Inl e)"
proof -
  have s0: "stage_of (Print s) = 0" for s
    by (simp add: stage_of_def)
  note st = stage_create_github_repo stage_create_key_pair stage_get_default_vpc_id
    stage_create_security_group stage_get_latest_ami
  have b: "stage_of ev \<le> k" if "stage_of ev \<le> j" "j \<le> k" for ev j k
    using that by simp
  have p1: "fst (create_github_repo cfg env) = Inl e \<Longrightarrow>
      fst (main cfg env) = Inl e \<and> (\<forall>ev \<in> set (snd (main cfg env)). stage_of ev \<le> 1)"
    by (auto simp: main_def pbind_print [OF assms] pbind_fail s0 dest: st)
  have p2: "fst (create_github_repo cfg env) = Inr repo_url \<Longrightarrow>
      fst (create_key_pair cfg env) = Inl e \<Longrightarrow>
      fst (main cfg env) = Inl e \<and> (\<forall>ev \<in> set (snd (main cfg env)). stage_of ev \<le> 2)"
    by (auto simp: main_def pbind_print [OF assms] pbind_fail pbind_ok s0 dest: st intro: b)
  have p3: "fst (create_github_repo cfg env) = Inr repo_url \<Longrightarrow>
      fst (create_key_pair cfg env) = Inr () \<Longrightarrow>
      fst (get_default_vpc_id env) = Inl e \<Longrightarrow>
      fst (main cfg env) = Inl e \<and> (\<forall>ev \<in> set (snd (main cfg env)). stage_of ev \<le> 3)"
    by (auto simp: main_def pbind_print [OF assms] pbind_fail pbind_ok s0 dest: st intro: b)
  have p4: "fst (create_github_repo cfg env) = Inr repo_url \<Longrightarrow>
      fst (create_key_pair cfg env) = Inr () \<Longrightarrow>
      fst (get_default_vpc_id env) = Inr vpc_id \<Longrightarrow>
      fst (create_security_group cfg env vpc_id) = Inl e \<Longrightarrow>
      fst (main cfg env) = Inl e \<and> (\<forall>ev \<in> set (snd (main cfg env)). stage_of ev \<le> 4)"
    by (auto simp: main_def pbind_print [OF assms] pbind_fail pbind_ok s0 dest: st intro: b)
  have p5: "fst (create_github_repo cfg env) = Inr repo_url \<Longrightarrow>
      fst (create_key_pair cfg env) = Inr () \<Longrightarrow>
      fst (get_default_vpc_id env) = Inr vpc_id \<Longrightarrow>
      fst (create_security_group cfg env vpc_id) = Inr sg_id \<Longrightarrow>
      fst (get_latest_ami cfg env) = Inl e \<Longrightarrow>
      fst (main cfg env) = Inl e \<and> (\<forall>ev \<in> set (snd (main cfg env)). stage_of ev \<le> 5)"
    by (auto simp: main_def pbind_print [OF assms] pbind_fail pbind_ok s0 dest: st intro: b)
  have p6: "fst (create_github_repo cfg env) = Inr repo_url \<Longrightarrow>
      fst (create_key_pair cfg env) = Inr () \<Longrightarrow>
      fst (get_default_vpc_id env) = Inr vpc_id \<Longrightarrow>
      fst (create_security_group cfg env vpc_id) = Inr sg_id \<Longrightarrow>
      fst (get_latest_ami cfg env) = Inr ami_id \<Longrightarrow>
      fst (launch_instances cfg env ami_id sg_id) = Inl e \<Longrightarrow>
      fst (main cfg env) = Inl e"
    by (simp add: main_def pbind_print [OF assms] pbind_fail pbind_ok)
  have l: "filter is_CreateInstances t = []" if "\<forall>ev \<in> set t. stage_of ev \<le> 3" for t
  proof -
    have "\<not> is_CreateInstances ev" if "ev \<in> set t" for ev
      using \<open>\<forall>ev \<in> set t. stage_of ev \<le> 3\<close> that
      by (cases ev) (auto simp: is_CreateInstances_def stage_of_def)
    then show ?thesis
      by (simp add: filter_empty_conv)
  qed
  show ?thesis
    using p1 p2 p3 p4 p5 p6 l by blast
qed

theorem main_stops_at_first_failure_witness:
  "fst (create_github_repo example_cfg no_vpc_env) = Inr ''https://github.com/octocat/aws-ec2-50''
   \<and> fst (create_key_pair example_cfg no_vpc_env) = Inr ()
   \<and> fst (get_default_vpc_id no_vpc_env) = Inl IndexError
   \<and> fst (main example_cfg no_vpc_env) = Inl IndexError
   \<and> filter (\<lambda>ev. 3 < stage_of ev) (snd (main example_cfg no_vpc_env)) = []
   \<and> filter is_CreateInstances (snd (main example_cfg no_vpc_env)) = []"
proof -
  have r: "fst (create_github_repo example_cfg no_vpc_env) =
             Inr ''https://github.com/octocat/aws-ec2-50''"
    by (rule create_github_repo_example) (simp_all add: no_vpc_env_def)
  have k: "fst (create_key_pair example_cfg no_vpc_env) = Inr ()"
    by (rule create_key_pair_example) (simp_all add: no_vpc_env_def)
  have o: "stdout_write no_vpc_env (sym_globe @ '' Starting deployment...'') = Inr ()"
    by (simp add: no_vpc_env_def)
  show ?thesis
    using main_stops_at_first_failure
            [OF o, of example_cfg IndexError "''https://github.com/octocat/aws-ec2-50''"]
      r k get_default_vpc_id_no_vpc
    by (simp add: filter_empty_conv not_less)
qed




text \<open>
  C10. The security group is not set up atomically: when the creation succeeds and the
  ingress-rule call then fails with a provider error whose text does not contain the
  duplicate-group marker, \<^verbatim>\<open>create_security_group\<close> raises that error, and the failed
  ingress-rule call is the last thing it does: no call deletes or repairs the group it has
  just created, which stays without the two rules. (Standard output is assumed to take
  the line printed after the creation.)
\<close>

theorem create_security_group_ingress_failure_leaves_group:
  assumes "ec2_create_security_group env (SECURITY_GROUP_NAME cfg) ''Allow SSH and HTTP inbound''
             vpc_id = Inr response"
    and "ec2_authorize_security_group_ingress env (GroupId response) ingress_rules
           = Inl (ClientError s)"
    and "\<not> str_in ''InvalidGroup.Duplicate'' s"
    and "stdout_write env (sym_check @ '' Security group created: '' @ GroupId response) = Inr ()"
  shows "create_security_group cfg env vpc_id =
           (Inl (ClientError s),
            [CreateSecurityGroup (SECURITY_GROUP_NAME cfg) ''Allow SSH and HTTP inbound'' vpc_id,
             Print (sym_check @ '' Security group created: '' @ GroupId response),
             AuthorizeSecurityGroupIngress (GroupId response) ingress_rules])"
  using assms
  by (simp add: create_security_group_def run_simps except_ClientError_caught Let_def raise_exn_def)

theorem create_security_group_ingress_failure_leaves_group_witness:
  "\<not> str_in ''InvalidGroup.Duplicate'' ''An error occurred (RequestLimitExceeded)''
   \<and> create_security_group example_cfg failing_ingress_env ''vpc-1'' =
     (Inl (ClientError ''An error occurred (RequestLimitExceeded)''),
      [CreateSecurityGroup ''allow_ssh_http'' ''Allow SSH and HTTP inbound'' ''vpc-1'',
       Print (sym_check @ '' Security group created: sg-new''),
       AuthorizeSecurityGroupIngress ''sg-new'' ingress_rules])"
proof -
  have d: "\<not> str_in ''InvalidGroup.Duplicate'' ''An error occurred (RequestLimitExceeded)''"
    by (simp add: startswith_def)
  have c: "ec2_create_security_group failing_ingress_env (SECURITY_GROUP_NAME example_cfg)
             ''Allow SSH and HTTP inbound'' ''vpc-1'' = Inr \<lparr>GroupId = ''sg-new''\<rparr>"
    by (simp add: failing_ingress_env_def example_env_def)
  have a: "ec2_authorize_security_group_ingress failing_ingress_env
             (GroupId \<lparr>GroupId = ''sg-new''\<rparr>) ingress_rules
           = Inl (ClientError ''An error occurred (RequestLimitExceeded)'')"
    by (simp add: failing_ingress_env_def)
  have n: "SECURITY_GROUP_NAME example_cfg = ''allow_ssh_http''"
    by (simp add: example_cfg_def)
  have o: "stdout_write failing_ingress_env
             (sym_check @ '' Security group created: '' @ GroupId \<lparr>GroupId = ''sg-new''\<rparr>)
           = Inr ()"
    by (simp add: failing_ingress_env_def)
  show ?thesis
    using create_security_group_ingress_failure_leaves_group [OF c a d o] d
    by (simp add: n)
qed

end
